theory Spec2Isabelle
  imports Main
begin

section \<open>JavaScript values and primitives used by the client\<close>

text \<open>
  The client (class \<open>IceTeaWeb3\<close>) is JavaScript. The parts of the language it relies on
  are written out here: errors that are thrown, promises that settle, string search,
  \<open>Array.prototype.join\<close>, and the text a template literal gives for a value.
\<close>

datatype js_error = Error string | TypeError | SyntaxError

text \<open>A call either throws synchronously or returns a value.\<close>

datatype 'a completion = Throws js_error | Returns 'a

text \<open>What the server does with a request: it answers, it refuses, or it never answers.\<close>

datatype 'r settlement = Resolved 'r | Rejected js_error | Unsettled

text \<open>\<open>s.startsWith(p)\<close>\<close>

fun startsWith :: "string \<Rightarrow> string \<Rightarrow> bool" where
  "startsWith s [] = True"
| "startsWith [] (p # ps) = False"
| "startsWith (c # cs) (p # ps) = (c = p \<and> startsWith cs ps)"

text \<open>\<open>s.indexOf(t)\<close>: the first position at which \<open>t\<close> occurs in \<open>s\<close>, or \<open>-1\<close>.\<close>

fun indexOf_from :: "nat \<Rightarrow> string \<Rightarrow> string \<Rightarrow> int" where
  "indexOf_from k [] t = (if t = [] then int k else - 1)"
| "indexOf_from k (c # cs) t =
     (if startsWith (c # cs) t then int k else indexOf_from (Suc k) cs t)"

definition indexOf :: "string \<Rightarrow> string \<Rightarrow> int" where
  "indexOf s t = indexOf_from 0 s t"

text \<open>The apostrophe that the query language puts around a literal.\<close>

definition apostrophe :: string where
  "apostrophe = [CHR 0x27]"

text \<open>\<open>arr.join(sep)\<close>\<close>

fun join :: "string list \<Rightarrow> string \<Rightarrow> string" where
  "join [] sep = []"
| "join [x] sep = x"
| "join (x # y # ys) sep = x @ sep @ join (y # ys) sep"

text \<open>
  The decimal text of an integer, as a template literal prints it, and the number that
  a decimal text stands for.
\<close>

definition digit :: "nat \<Rightarrow> char" where
  "digit d = ''0123456789'' ! (d mod 10)"

function string_of_nat :: "nat \<Rightarrow> string" where
  "string_of_nat n =
     (if n < 10 then [digit n] else string_of_nat (n div 10) @ [digit (n mod 10)])"
  by pat_completeness auto
termination
  by (relation "measure (\<lambda>n. n)") auto

declare string_of_nat.simps [simp del]

definition string_of_int :: "int \<Rightarrow> string" where
  "string_of_int i =
     (if i < 0 then CHR ''-'' # string_of_nat (nat (- i)) else string_of_nat (nat i))"

definition nat_of_string :: "string \<Rightarrow> nat" where
  "nat_of_string s = foldl (\<lambda>a c. 10 * a + (of_char c - 48)) 0 s"

text \<open>
  A value of a condition object or of a request's parameters.
  \<^item> \<open>Num n\<close> is the number \<open>n\<close>, an integer.
  \<^item> \<open>Str s\<close> is a string.
  \<^item> \<open>Undefined\<close> is \<open>undefined\<close>.
  \<^item> \<open>Other t\<close> is one of the remaining values on which a template literal and
    arithmetic do not throw (a number that is not an integer, \<open>NaN\<close>, an infinity, a
    boolean, \<open>null\<close>), named by the text \<open>t\<close> that a template literal prints for it.
\<close>

datatype scalar = Num int | Str string | Undefined | Other string

text \<open>
  \<open>Number.isSafeInteger\<close>. Numbers are binary64: on the safe integers \<open>+ 1\<close> and
  \<open>- 1\<close> are exact (the result is at most \<open>2^53\<close> in magnitude, which is
  representable) and the text is the plain decimal one (exponent notation starts at
  \<open>1e21\<close>).
\<close>

definition isSafeInteger :: "int \<Rightarrow> bool" where
  "isSafeInteger n \<longleftrightarrow> - 9007199254740991 \<le> n \<and> n \<le> 9007199254740991"

text \<open>
  What is computed here and what is not. The texts of \<open>`${value}`\<close>,
  \<open>`${value - 1}`\<close> and \<open>`${value + 1}`\<close> are computed for safe integers, for
  \<open>undefined\<close>, and for strings where no conversion to a number is involved. Everywhere
  else the result is the language's own (the conversion of a string to a number,
  binary64 rounding, the exponent notation of large numbers): it is taken from the
  parameter \<open>conv\<close>, which gives the text for an operation and a value.
\<close>

datatype coercion = AsText | MinusOne | PlusOne

type_synonym coercions = "coercion \<Rightarrow> scalar \<Rightarrow> string"

text \<open>\<open>`${value}`\<close>\<close>

fun template :: "coercions \<Rightarrow> scalar \<Rightarrow> string" where
  "template conv (Num n) = (if isSafeInteger n then string_of_int n else conv AsText (Num n))"
| "template conv (Str s) = s"
| "template conv Undefined = ''undefined''"
| "template conv (Other t) = t"

text \<open>
  \<open>`${value - 1}`\<close>. On a string, \<open>-\<close> first converts the string to a number;
  \<open>undefined - 1\<close> is \<open>NaN\<close>.
\<close>

fun minus1_text :: "coercions \<Rightarrow> scalar \<Rightarrow> string" where
  "minus1_text conv (Num n) =
     (if isSafeInteger n then string_of_int (n - 1) else conv MinusOne (Num n))"
| "minus1_text conv (Str s) = conv MinusOne (Str s)"
| "minus1_text conv Undefined = ''NaN''"
| "minus1_text conv (Other t) = conv MinusOne (Other t)"

text \<open>\<open>`${value + 1}`\<close>. On a string, \<open>+\<close> concatenates; \<open>undefined + 1\<close> is \<open>NaN\<close>.\<close>

fun plus1_text :: "coercions \<Rightarrow> scalar \<Rightarrow> string" where
  "plus1_text conv (Num n) =
     (if isSafeInteger n then string_of_int (n + 1) else conv PlusOne (Num n))"
| "plus1_text conv (Str s) = s @ ''1''"
| "plus1_text conv Undefined = ''NaN''"
| "plus1_text conv (Other t) = conv PlusOne (Other t)"

section \<open>Data model\<close>

text \<open>
  The \<open>conditions\<close> argument of \<open>getPastEvents\<close> and \<open>subscribe\<close>: left out, a string,
  a function (a callback in the place of the conditions), or an object literal, given
  by its entries in the order of \<open>Object.keys\<close>.
\<close>

datatype 'cb conditions =
    NoConditions
  | StringConditions string
  | FunctionConditions 'cb
  | ObjectConditions "(string \<times> scalar) list"

text \<open>One entry of \<open>this.subscriptions\<close>.\<close>

record subscription =
  subscription_id :: string
  subscribeMethod :: string
  query :: string

text \<open>A request handed to \<open>this.rpc.call(method, params)\<close>.\<close>

record rpc_request =
  rpc_method :: string
  rpc_params :: "string \<rightharpoonup> scalar"

text \<open>What the server answers to a request: an object with an \<open>id\<close>.\<close>

record rpc_result =
  result_id :: string

text \<open>
  The function that \<open>subscribe\<close> registers for \<open>onMessage\<close> is a closure; the record
  holds the variables it captured: \<open>result.id\<close>, \<open>isSystemEvent\<close>,
  \<open>nonSystemEventName\<close> (undefined for a system event) and \<open>callback\<close> (undefined
  when the caller gave none).
\<close>

record 'cb listener =
  lis_id :: string
  lis_isSystemEvent :: bool
  lis_nonSystemEventName :: "string option"
  lis_callback :: "'cb option"

text \<open>
  Modelled from the spec: the Transport (\<open>providers/WebsocketProvider\<close>, which is not
  among the sources), with \<open>request(method, params)\<close> and
  \<open>registerListener(kind, handler)\<close>. The model keeps what the client hands to it:
  the requests passed to \<open>rpc.call\<close>, and the handlers registered for \<open>onMessage\<close>,
  both in the order of the calls.
\<close>

record 'cb provider =
  calls :: "rpc_request list"
  onMessage :: "'cb listener list"

text \<open>
  The client instance. \<open>subscriptions\<close> is a plain object (\<open>{}\<close>) used as a
  dictionary from subscription id to entry; the map holds its own properties. The ids
  that the server issues are taken to be different from \<open>__proto__\<close>: an assignment
  to that name would replace the prototype of the object instead of adding an entry.
\<close>

record 'cb client =
  isWebSocket :: bool
  subscriptions :: "string \<rightharpoonup> subscription"
  countSubscribeEvent :: nat
  rpc :: "'cb provider"

text \<open>
  The names that a plain object inherits from \<open>Object.prototype\<close>. Under each of
  them a read finds a value that is not \<open>undefined\<close> (a function, or for
  \<open>__proto__\<close> the prototype itself), and that value has no \<open>query\<close>.
\<close>

definition Object_prototype :: "string list" where
  "Object_prototype =
     [''constructor'', ''hasOwnProperty'', ''isPrototypeOf'', ''propertyIsEnumerable'',
      ''toLocaleString'', ''toString'', ''valueOf'', ''__proto__'', ''__defineGetter__'',
      ''__defineSetter__'', ''__lookupGetter__'', ''__lookupSetter__'']"

text \<open>
  \<open>this.subscriptions[id]\<close>: the entry stored under the id, else the value
  inherited under that name, else \<open>undefined\<close>.
\<close>

datatype property_value = Entry subscription | Inherited | NoProperty

definition subscriptions_at :: "'cb client \<Rightarrow> string \<Rightarrow> property_value" where
  "subscriptions_at st i =
     (case subscriptions st i of
        Some s \<Rightarrow> Entry s
      | None \<Rightarrow> if i \<in> set Object_prototype then Inherited else NoProperty)"

text \<open>
  What \<open>JSON.parse(message)\<close> makes of an inbound message: it throws a SyntaxError, or
  it gives a value of which the handler reads \<open>jsonrpc\<close>, \<open>id\<close> and \<open>result\<close>. The
  \<open>id\<close> is a string, or something on which \<open>.indexOf\<close> cannot be called (absent,
  \<open>null\<close>, a number, or the parsed value is itself \<open>null\<close>): reading it that way
  raises a TypeError. Array ids are not modelled.
\<close>

datatype id_field = IdString string | NoIndexOf

datatype 'j parsed = Invalid | Parsed 'j id_field 'j

text \<open>
  An application event as \<open>decodeEventData\<close> returns it. An event without an
  \<open>eventName\<close> is modelled with the empty name: both are falsy in the handler's test.
\<close>

record 'j event =
  eventName :: string
  emitter :: string
  eventData :: 'j

text \<open>
  The object \<open>res\<close> that the handler builds for an application event: \<open>res.jsonrpc\<close>,
  \<open>res.id\<close>, \<open>res.result\<close> (the event) and \<open>res.result.query\<close>.
\<close>

record 'j res =
  res_jsonrpc :: 'j
  res_id :: string
  res_result :: "'j event"
  res_result_query :: string

text \<open>
  The arguments of one callback invocation: \<open>callback(message)\<close> with the raw message,
  or \<open>callback(JSON.stringify(res), null, 2)\<close>. When \<open>res.result.query\<close> is
  \<open>undefined\<close> the text has no query, and what is left of \<open>res\<close> is \<open>jsonrpc\<close>,
  \<open>id\<close> and the event.
\<close>

datatype 'j callback_args =
    RawMessage string
  | Stringified "'j res"
  | StringifiedWithoutQuery 'j string "'j event"

text \<open>
  What one run of a handler did: the callbacks it invoked, in order, and the error it
  raised, if any.
\<close>

record ('cb, 'j) outcome =
  invoked :: "('cb \<times> 'j callback_args) list"
  raised :: "js_error option"

section \<open>Construction and historical search\<close>

text \<open>The constructor (the wallet and the \<open>utils\<close> table play no part here).\<close>

definition IceTeaWeb3 :: "string \<Rightarrow> 'cb client" where
  "IceTeaWeb3 endpoint =
     \<lparr> isWebSocket = (startsWith endpoint ''ws://'' \<or> startsWith endpoint ''wss://''),
       subscriptions = Map.empty,
       countSubscribeEvent = 0,
       rpc = \<lparr> calls = [], onMessage = [] \<rparr> \<rparr>"

text \<open>\<open>this.rpc.call(method, params)\<close>: the request goes to the Transport.\<close>

definition rpc_call :: "'cb client \<Rightarrow> string \<Rightarrow> (string \<rightharpoonup> scalar) \<Rightarrow> 'cb client" where
  "rpc_call st m ps =
     st\<lparr> rpc := (rpc st)\<lparr> calls := calls (rpc st) @ [\<lparr> rpc_method = m, rpc_params = ps \<rparr>] \<rparr> \<rparr>"

text \<open>\<open>searchTransactions(query, options)\<close>; the parameters are \<open>{ query, ...options }\<close>.\<close>

definition searchTransactions ::
  "'cb client \<Rightarrow> string \<Rightarrow> (string \<times> scalar) list \<Rightarrow> 'cb client \<times> unit completion" where
  "searchTransactions st q options =
     (if q = [] then (st, Throws (Error ''query is required, example \"tx.height>0\"''))
      else (rpc_call st ''tx_search'' ([''query'' \<mapsto> Str q] ++ map_of options), Returns ()))"

text \<open>\<open>typeof conditions === 'string'\<close>\<close>

fun is_string :: "'cb conditions \<Rightarrow> bool" where
  "is_string (StringConditions s) = True"
| "is_string _ = False"

text \<open>
  \<open>Object.keys(conditions)\<close> with the value of each key. The default \<open>{}\<close> that
  stands in for conditions left out has no keys, and neither has a function.
\<close>

fun entries :: "'cb conditions \<Rightarrow> (string \<times> scalar) list" where
  "entries (ObjectConditions kvs) = kvs"
| "entries _ = []"

text \<open>The body of the function given to \<open>reduce\<close>, the same in both query builders.\<close>

definition push_clause ::
  "coercions \<Rightarrow> string list \<Rightarrow> string \<times> scalar \<Rightarrow> string list" where
  "push_clause conv arr kv =
     (let key = fst kv; value = snd kv in
      if key = ''fromBlock'' then arr @ [''tx.height>'' @ minus1_text conv value]
      else if key = ''toBlock'' then arr @ [''tx.height<'' @ plus1_text conv value]
      else arr @ [key @ ''='' @ template conv value])"

text \<open>
  The value of \<open>query\<close> in \<open>getPastEvents\<close> when the call to \<open>searchTransactions\<close> is
  reached. An emitter that is left out or empty is falsy.
\<close>

definition getPastEvents_query ::
  "coercions \<Rightarrow> string \<Rightarrow> string option \<Rightarrow> 'cb conditions \<Rightarrow> string" where
  "getPastEvents_query conv evName em conditions =
     (case conditions of
        StringConditions s \<Rightarrow> s
      | _ \<Rightarrow>
          (let emitter' = (case em of None \<Rightarrow> ''.''
                           | Some e \<Rightarrow> if e = [] then ''.'' else ''|'' @ e @ ''.'')
           in join (foldl (push_clause conv)
                      [''EventNames CONTAINS '' @ apostrophe @ emitter' @ evName @ ''|'' @ apostrophe]
                      (entries conditions))
                   '' AND ''))"

definition getPastEvents ::
  "coercions \<Rightarrow> 'cb client \<Rightarrow> string \<Rightarrow> string option \<Rightarrow> 'cb conditions \<Rightarrow>
   (string \<times> scalar) list \<Rightarrow> 'cb client \<times> unit completion" where
  "getPastEvents conv st evName em conditions options =
     searchTransactions st (getPastEvents_query conv evName em conditions) options"

section \<open>Live subscriptions\<close>

definition systemEvent :: "string list" where
  "systemEvent = [''NewBlock'', ''NewBlockHeader'', ''Tx'', ''RoundState'', ''NewRound'',
     ''CompleteProposal'', ''Vote'', ''ValidatorSetUpdates'', ''ProposalString'']"

text \<open>The loop \<open>for (var i = 0; i < this.countSubscribeEvent; i++) space = space + ' '\<close>.\<close>

function space_loop :: "nat \<Rightarrow> nat \<Rightarrow> string \<Rightarrow> string" where
  "space_loop i n space = (if i < n then space_loop (Suc i) n (space @ '' '') else space)"
  by pat_completeness auto
termination
  by (relation "measure (\<lambda>(i, n, space). n - i)") auto

declare space_loop.simps [simp del]

text \<open>
  What the function given to \<open>.then\<close> in \<open>subscribe\<close> has captured when the request
  is sent: \<open>isSystemEvent\<close>, \<open>nonSystemEventName\<close>, \<open>eventName\<close> (by then the name
  of the system event), \<open>query\<close> and \<open>callback\<close>.
\<close>

record 'cb subscribing =
  sg_isSystemEvent :: bool
  sg_nonSystemEventName :: "string option"
  sg_eventName :: string
  sg_query :: string
  sg_callback :: "'cb option"

text \<open>
  The value of \<open>query\<close> in \<open>subscribe\<close> when the request is sent; \<open>n\<close> is the value
  of the counter and \<open>evName\<close> the name of the system event at that point.
\<close>

definition subscribe_query ::
  "coercions \<Rightarrow> nat \<Rightarrow> string \<Rightarrow> 'cb conditions \<Rightarrow> string" where
  "subscribe_query conv n evName conditions =
     (case conditions of
        StringConditions s \<Rightarrow> s
      | _ \<Rightarrow>
          join (foldl (push_clause conv)
                  [''tm.event = '' @ space_loop 0 n [] @ apostrophe @ evName @ apostrophe]
                  (entries conditions))
               '' AND '')"

text \<open>
  \<open>if (typeof conditions === 'function' && typeof callback === 'undefined')\<close>: the
  function becomes the callback and the conditions become \<open>{}\<close>.
\<close>

fun function_as_callback ::
  "'cb conditions \<Rightarrow> 'cb option \<Rightarrow> 'cb conditions \<times> 'cb option" where
  "function_as_callback (FunctionConditions f) None = (ObjectConditions [], Some f)"
| "function_as_callback conditions callback = (conditions, callback)"

text \<open>
  \<open>subscribe(eventName, conditions, callback)\<close> up to the point where the request has
  been sent and the promise is returned.
\<close>

definition subscribe ::
  "coercions \<Rightarrow> 'cb client \<Rightarrow> string \<Rightarrow> 'cb conditions \<Rightarrow> 'cb option \<Rightarrow>
   'cb client \<times> 'cb subscribing completion" where
  "subscribe conv st evName conditions callback =
     (if \<not> isWebSocket st then (st, Throws (Error ''subscribe for WebSocket only''))
      else
        let isSystemEvent = (evName \<in> set systemEvent);
            nonSystemEventName = (if isSystemEvent then None else Some evName);
            st1 = (if isSystemEvent then st
                   else st\<lparr> countSubscribeEvent := countSubscribeEvent st + 1 \<rparr>);
            evName' = (if isSystemEvent then evName else ''Tx'');
            (conditions', callback') = function_as_callback conditions callback;
            q = subscribe_query conv (countSubscribeEvent st1) evName' conditions'
        in (rpc_call st1 ''subscribe'' [''query'' \<mapsto> Str q],
            Returns \<lparr> sg_isSystemEvent = isSystemEvent,
                      sg_nonSystemEventName = nonSystemEventName,
                      sg_eventName = evName',
                      sg_query = q,
                      sg_callback = callback' \<rparr>))"

text \<open>\<open>nonSystemEventName || eventName\<close>: an empty name is falsy.\<close>

definition subscribeMethod_of :: "'cb subscribing \<Rightarrow> string" where
  "subscribeMethod_of p =
     (case sg_nonSystemEventName p of
        None \<Rightarrow> sg_eventName p
      | Some n \<Rightarrow> if n = [] then sg_eventName p else n)"

definition subscription_of :: "'cb subscribing \<Rightarrow> rpc_result \<Rightarrow> subscription" where
  "subscription_of p result =
     \<lparr> subscription_id = result_id result,
       subscribeMethod = subscribeMethod_of p,
       query = sg_query p \<rparr>"

definition listener_of :: "'cb subscribing \<Rightarrow> rpc_result \<Rightarrow> 'cb listener" where
  "listener_of p result =
     \<lparr> lis_id = result_id result,
       lis_isSystemEvent = sg_isSystemEvent p,
       lis_nonSystemEventName = sg_nonSystemEventName p,
       lis_callback = sg_callback p \<rparr>"

text \<open>
  The function given to \<open>.then\<close> in \<open>subscribe\<close>, run when the server has answered
  with \<open>result\<close>: it stores the entry under \<open>result.id\<close>, registers the handler for
  \<open>onMessage\<close> and passes \<open>result\<close> on.
\<close>

definition subscribe_then ::
  "'cb client \<Rightarrow> 'cb subscribing \<Rightarrow> rpc_result \<Rightarrow> 'cb client \<times> rpc_result" where
  "subscribe_then st p result =
     (st\<lparr> subscriptions := (subscriptions st)(result_id result \<mapsto> subscription_of p result),
          rpc := (rpc st)\<lparr> onMessage := onMessage (rpc st) @ [listener_of p result] \<rparr> \<rparr>,
      result)"

text \<open>The promise \<open>subscribe\<close> returned, once the server has settled the request or not.\<close>

definition subscribe_settle ::
  "'cb client \<Rightarrow> 'cb subscribing \<Rightarrow> rpc_result settlement \<Rightarrow>
   'cb client \<times> rpc_result settlement" where
  "subscribe_settle st p s =
     (case s of
        Resolved result \<Rightarrow> (let (st', r) = subscribe_then st p result in (st', Resolved r))
      | Rejected e \<Rightarrow> (st, Rejected e)
      | Unsettled \<Rightarrow> (st, Unsettled))"

section \<open>The handler for inbound messages\<close>

text \<open>
  \<open>callback(args)\<close>; calling an undefined callback raises a TypeError. What the
  callback does is the caller's own: the invocation is recorded, and the callback is
  taken to return.
\<close>

definition call_callback ::
  "'cb option \<Rightarrow> 'j callback_args \<Rightarrow> ('cb, 'j) outcome" where
  "call_callback callback args =
     (case callback of
        None \<Rightarrow> \<lparr> invoked = [], raised = Some TypeError \<rparr>
      | Some cb \<Rightarrow> \<lparr> invoked = [(cb, args)], raised = None \<rparr>)"

text \<open>
  The function given to \<open>events.forEach\<close>, for one event. The query is read from
  \<open>this.subscriptions[result.id]\<close> when the message arrives; if nothing is found
  under the id, reading \<open>.query\<close> raises a TypeError, and if an inherited value is
  found its \<open>query\<close> is \<open>undefined\<close>.
\<close>

definition on_event ::
  "'cb client \<Rightarrow> 'cb listener \<Rightarrow> 'j \<Rightarrow> string \<Rightarrow> 'j event \<Rightarrow> ('cb, 'j) outcome" where
  "on_event st l jsonrpc mid ev =
     (if eventName ev \<noteq> [] \<and> lis_nonSystemEventName l = Some (eventName ev) then
        (case subscriptions_at st (lis_id l) of
           NoProperty \<Rightarrow> \<lparr> invoked = [], raised = Some TypeError \<rparr>
         | Inherited \<Rightarrow>
             call_callback (lis_callback l) (StringifiedWithoutQuery jsonrpc mid ev)
         | Entry s \<Rightarrow>
             call_callback (lis_callback l)
               (Stringified \<lparr> res_jsonrpc = jsonrpc, res_id = mid, res_result = ev,
                              res_result_query = query s \<rparr>))
      else \<lparr> invoked = [], raised = None \<rparr>)"

text \<open>\<open>events.forEach(f)\<close>: the events in order, up to the first error.\<close>

fun forEach :: "('a \<Rightarrow> ('cb, 'j) outcome) \<Rightarrow> 'a list \<Rightarrow> ('cb, 'j) outcome" where
  "forEach f [] = \<lparr> invoked = [], raised = None \<rparr>"
| "forEach f (x # xs) =
     (let o1 = f x in
      case raised o1 of
        Some e \<Rightarrow> o1
      | None \<Rightarrow> (let o2 = forEach f xs in
                 \<lparr> invoked = invoked o1 @ invoked o2, raised = raised o2 \<rparr>))"

text \<open>
  The handler that \<open>subscribe\<close> registers for \<open>onMessage\<close>, run on one inbound
  message. \<open>parse\<close> is \<open>JSON.parse\<close>.

  Modelled from the spec: \<open>decodeEventData\<close> (from \<open>utils\<close>, which is not among the
  sources) is the parameter \<open>decode\<close>, a pure function from the result payload to the
  sequence of application events.
\<close>

definition onMessage_handler ::
  "(string \<Rightarrow> 'j parsed) \<Rightarrow> ('j \<Rightarrow> 'j event list) \<Rightarrow> 'cb client \<Rightarrow> 'cb listener \<Rightarrow>
   string \<Rightarrow> ('cb, 'j) outcome" where
  "onMessage_handler parse decode st l message =
     (case parse message of
        Invalid \<Rightarrow> \<lparr> invoked = [], raised = Some SyntaxError \<rparr>
      | Parsed jsonrpc idf payload \<Rightarrow>
          if lis_id l = [] then \<lparr> invoked = [], raised = None \<rparr>
          else
            (case idf of
               NoIndexOf \<Rightarrow> \<lparr> invoked = [], raised = Some TypeError \<rparr>
             | IdString mid \<Rightarrow>
                 if indexOf mid (lis_id l) \<ge> 0 then
                   (if lis_isSystemEvent l then call_callback (lis_callback l) (RawMessage message)
                    else forEach (on_event st l jsonrpc mid) (decode payload))
                 else \<lparr> invoked = [], raised = None \<rparr>))"

section \<open>Unsubscribing\<close>

text \<open>
  \<open>unsubscribe(subscriptionId)\<close> up to the point where it returns: it throws, it
  returns a promise that waits for the server, or it returns a rejected promise. The
  test is \<open>typeof this.subscriptions[subscriptionId] !== 'undefined'\<close>: it also
  passes for a name that the object inherits, and the request then carries the
  \<open>query\<close> of the inherited value, which is \<open>undefined\<close>.
\<close>

datatype unsubscribing = AwaitingServer string | RejectedWith js_error

definition unsubscribe ::
  "'cb client \<Rightarrow> string \<Rightarrow> 'cb client \<times> unsubscribing completion" where
  "unsubscribe st subscriptionId =
     (if \<not> isWebSocket st then (st, Throws (Error ''unsubscribe for WebSocket only''))
      else
        (case subscriptions_at st subscriptionId of
           Entry s \<Rightarrow> (rpc_call st ''unsubscribe'' [''query'' \<mapsto> Str (query s)],
                       Returns (AwaitingServer subscriptionId))
         | Inherited \<Rightarrow> (rpc_call st ''unsubscribe'' [''query'' \<mapsto> Undefined],
                         Returns (AwaitingServer subscriptionId))
         | NoProperty \<Rightarrow> (st, Returns (RejectedWith
                           (Error (''Error: Subscription with ID '' @ subscriptionId @
                                   '' does not exist.''))))))"

text \<open>
  The function given to \<open>.then\<close> in \<open>unsubscribe\<close>, run when the server has
  answered: \<open>delete\<close> removes the object's own property, if there is one.
\<close>

definition unsubscribe_then :: "'cb client \<Rightarrow> string \<Rightarrow> 'r \<Rightarrow> 'cb client \<times> 'r" where
  "unsubscribe_then st subscriptionId res =
     (st\<lparr> subscriptions := (subscriptions st)(subscriptionId := None) \<rparr>, res)"

definition unsubscribe_settle ::
  "'cb client \<Rightarrow> string \<Rightarrow> 'r settlement \<Rightarrow> 'cb client \<times> 'r settlement" where
  "unsubscribe_settle st subscriptionId s =
     (case s of
        Resolved res \<Rightarrow> (let (st', r) = unsubscribe_then st subscriptionId res in (st', Resolved r))
      | Rejected e \<Rightarrow> (st, Rejected e)
      | Unsettled \<Rightarrow> (st, Unsettled))"

section \<open>Sequences of operations\<close>

text \<open>
  What can happen to a client, one after the other: a call of \<open>getPastEvents\<close>,
  \<open>subscribe\<close> or \<open>unsubscribe\<close>, and the settling of a request that one of them
  has sent. Handling an inbound message does not write to the client.
\<close>

datatype 'cb operation =
    GetPastEvents string "string option" "'cb conditions" "(string \<times> scalar) list"
  | Subscribe string "'cb conditions" "'cb option"
  | SubscribeSettled "'cb subscribing" "rpc_result settlement"
  | Unsubscribe string
  | UnsubscribeSettled string "rpc_result settlement"

fun perform :: "coercions \<Rightarrow> 'cb client \<Rightarrow> 'cb operation \<Rightarrow> 'cb client" where
  "perform conv st (GetPastEvents evName em conditions options) =
     fst (getPastEvents conv st evName em conditions options)"
| "perform conv st (Subscribe evName conditions callback) =
     fst (subscribe conv st evName conditions callback)"
| "perform conv st (SubscribeSettled p s) = fst (subscribe_settle st p s)"
| "perform conv st (Unsubscribe i) = fst (unsubscribe st i)"
| "perform conv st (UnsubscribeSettled i s) = fst (unsubscribe_settle st i s)"

definition perform_all ::
  "coercions \<Rightarrow> 'cb client \<Rightarrow> 'cb operation list \<Rightarrow> 'cb client" where
  "perform_all conv st ops = foldl (perform conv) st ops"

section \<open>The clause of one condition, in the specification's words\<close>

text \<open>
  The specification gives one clause per key of a structured filter: \<open>fromBlock\<close> with
  value \<open>a\<close> gives \<open>tx.height>a-1\<close>, \<open>toBlock\<close> with value \<open>b\<close> gives
  \<open>tx.height<b+1\<close>, any other key \<open>k\<close> with value \<open>v\<close> gives \<open>k=v\<close>. This is
  that reading, to be compared with what \<open>reduce\<close> builds.
\<close>

definition spec_clause :: "coercions \<Rightarrow> string \<times> scalar \<Rightarrow> string" where
  "spec_clause conv kv =
     (case kv of (k, v) \<Rightarrow>
        if k = ''fromBlock'' then ''tx.height>'' @ minus1_text conv v
        else if k = ''toBlock'' then ''tx.height<'' @ plus1_text conv v
        else k @ ''='' @ template conv v)"

text \<open>
  The live-subscription query in the specification's words: the comparison of the
  system tag with \<open>n\<close> whitespace characters inserted before the quoted tag literal,
  followed by the clauses of the conditions, joined by \<open>' AND '\<close>.
\<close>

definition spec_live_query ::
  "coercions \<Rightarrow> nat \<Rightarrow> string \<Rightarrow> 'cb conditions \<Rightarrow> string" where
  "spec_live_query conv n tag conditions =
     join ((''tm.event = '' @ replicate n (CHR '' '') @ apostrophe @ tag @ apostrophe)
           # map (spec_clause conv) (entries conditions)) '' AND ''"

section \<open>Concrete runs\<close>

text \<open>
  A small session used to run the model: a stand-in for the conversions of the language
  that answers \<open>NaN\<close> wherever it is asked, a parser that knows three messages, a decoder that finds two events in the
  payload \<open>tx\<close>, and clients over a WebSocket and over HTTP. Callbacks are numbered.
\<close>

definition nan_conv :: coercions where
  "nan_conv c v = ''NaN''"

definition demo_parse :: "string \<Rightarrow> string parsed" where
  "demo_parse message =
     (if message = ''push'' then Parsed ''2.0'' (IdString ''7#event'') ''tx''
      else if message = ''no-id'' then Parsed ''2.0'' NoIndexOf ''tx''
      else Invalid)"

definition transferred :: "string event" where
  "transferred = \<lparr> eventName = ''Transferred'', emitter = ''teat1'', eventData = ''d1'' \<rparr>"

definition other :: "string event" where
  "other = \<lparr> eventName = ''Other'', emitter = ''teat1'', eventData = ''d2'' \<rparr>"

definition demo_decode :: "string \<Rightarrow> string event list" where
  "demo_decode payload = (if payload = ''tx'' then [transferred, other] else [])"

definition ws_client :: "nat client" where
  "ws_client = IceTeaWeb3 ''ws://localhost:26657/websocket''"

definition http_client :: "nat client" where
  "http_client = IceTeaWeb3 ''http://localhost:26657''"

text \<open>The query of each request sent so far, oldest first.\<close>

definition sent_queries :: "'cb client \<Rightarrow> scalar option list" where
  "sent_queries st = map (\<lambda>r. rpc_params r ''query'') (calls (rpc st))"

text \<open>
  \<open>subscribe(eventName, conditions, callback)\<close> answered by the server with the given
  id: the state after the promise has resolved.
\<close>

definition subscribed ::
  "'cb client \<Rightarrow> string \<Rightarrow> 'cb conditions \<Rightarrow> 'cb option \<Rightarrow> string \<Rightarrow> 'cb client" where
  "subscribed st evName conditions callback i =
     (case subscribe nan_conv st evName conditions callback of
        (st1, Returns p) \<Rightarrow> fst (subscribe_settle st1 p (Resolved \<lparr> result_id = i \<rparr>))
      | (st1, Throws e) \<Rightarrow> st1)"

text \<open>The promise of that call, as its caller sees it.\<close>

definition subscribed_promise ::
  "'cb client \<Rightarrow> string \<Rightarrow> 'cb conditions \<Rightarrow> 'cb option \<Rightarrow> string \<Rightarrow>
   rpc_result settlement completion" where
  "subscribed_promise st evName conditions callback i =
     (case subscribe nan_conv st evName conditions callback of
        (st1, Returns p) \<Rightarrow> Returns (snd (subscribe_settle st1 p (Resolved \<lparr> result_id = i \<rparr>)))
      | (st1, Throws e) \<Rightarrow> Throws e)"

section \<open>Properties of the primitives\<close>

lemma space_loop_replicate: "space_loop i n s = s @ replicate (n - i) (CHR '' '')"
proof (induction i n s rule: space_loop.induct)
  case (1 i n space)
  show ?case
  proof (cases "i < n")
    case True
    then have "n - i = Suc (n - Suc i)" by simp
    with True 1 show ?thesis
      by (simp add: space_loop.simps [of i n space] replicate_app_Cons_same)
  next
    case False
    then show ?thesis by (simp add: space_loop.simps [of i n space])
  qed
qed

lemma space_loop_from_empty: "space_loop 0 n [] = replicate n (CHR '' '')"
  by (simp add: space_loop_replicate)

lemma push_clause_snoc: "push_clause conv arr kv = arr @ [spec_clause conv kv]"
  by (cases kv) (simp add: push_clause_def spec_clause_def)

lemma reduce_push_clause:
  "foldl (push_clause conv) arr kvs = arr @ map (spec_clause conv) kvs"
  by (induction kvs arbitrary: arr) (simp_all add: push_clause_snoc)

lemma join_Cons: "join (x # xs) sep = x @ concat (map (\<lambda>y. sep @ y) xs)"
  by (induction xs arbitrary: x) simp_all

lemma getPastEvents_query_structured:
  "\<not> is_string conditions \<Longrightarrow>
   getPastEvents_query conv evName em conditions =
     join ((''EventNames CONTAINS '' @ apostrophe @
            (case em of None \<Rightarrow> ''.'' | Some e \<Rightarrow> if e = [] then ''.'' else ''|'' @ e @ ''.'') @
            evName @ ''|'' @ apostrophe) # map (spec_clause conv) (entries conditions)) '' AND ''"
  by (cases conditions) (simp_all add: getPastEvents_query_def reduce_push_clause)

lemma subscribe_query_structured:
  "\<not> is_string conditions \<Longrightarrow>
   subscribe_query conv n evName conditions =
     join ((''tm.event = '' @ replicate n (CHR '' '') @ apostrophe @ evName @ apostrophe)
           # map (spec_clause conv) (entries conditions)) '' AND ''"
  by (cases conditions)
     (simp_all add: subscribe_query_def reduce_push_clause space_loop_from_empty)

lemma function_as_callback_entries:
  "entries (fst (function_as_callback conditions callback)) = entries conditions"
  by (cases "(conditions, callback)" rule: function_as_callback.cases) simp_all

lemma function_as_callback_is_string:
  "is_string (fst (function_as_callback conditions callback)) = is_string conditions"
  by (cases "(conditions, callback)" rule: function_as_callback.cases) simp_all

lemma subscribe_websocket:
  "isWebSocket st \<Longrightarrow>
   subscribe conv st evName conditions callback =
     (let sys = (evName \<in> set systemEvent);
          n = (if sys then countSubscribeEvent st else countSubscribeEvent st + 1);
          q = subscribe_query conv n (if sys then evName else ''Tx'')
                (fst (function_as_callback conditions callback))
      in (rpc_call (st\<lparr> countSubscribeEvent := n \<rparr>) ''subscribe'' [''query'' \<mapsto> Str q],
          Returns \<lparr> sg_isSystemEvent = sys,
                    sg_nonSystemEventName = (if sys then None else Some evName),
                    sg_eventName = (if sys then evName else ''Tx''),
                    sg_query = q,
                    sg_callback = snd (function_as_callback conditions callback) \<rparr>))"
  by (simp add: subscribe_def Let_def split: prod.splits)

section \<open>The query builders\<close>

text \<open>The decimal text: only digits, and the number can be read back from it.\<close>

lemma of_char_digit: "d < 10 \<Longrightarrow> of_char (digit d) = (48 + d :: nat)"
proof -
  assume "d < 10"
  then have "d \<in> {0, 1, 2, 3, 4, 5, 6, 7, 8, 9}" by auto
  then show ?thesis by (auto simp add: digit_def)
qed

lemma nat_of_string_snoc:
  "nat_of_string (s @ [c]) = 10 * nat_of_string s + (of_char c - 48)"
  by (simp add: nat_of_string_def)

lemma nat_of_string_of_nat: "nat_of_string (string_of_nat n) = n"
proof (induction n rule: string_of_nat.induct)
  case (1 n)
  show ?case
  proof (cases "n < 10")
    case True
    then show ?thesis
      by (simp add: string_of_nat.simps [of n] nat_of_string_def of_char_digit)
  next
    case False
    with 1 have "nat_of_string (string_of_nat (n div 10)) = n div 10" by simp
    with False show ?thesis
      by (simp add: string_of_nat.simps [of n] nat_of_string_snoc of_char_digit)
  qed
qed

lemma string_of_nat_digits: "set (string_of_nat n) \<subseteq> set ''0123456789''"
proof (induction n rule: string_of_nat.induct)
  case (1 n)
  have d: "digit k \<in> set ''0123456789''" for k
  proof -
    have "k mod 10 < length ''0123456789''" by simp
    then show ?thesis unfolding digit_def by (rule nth_mem)
  qed
  show ?case
  proof (cases "n < 10")
    case True
    with d [of n] show ?thesis by (simp add: string_of_nat.simps [of n])
  next
    case False
    with 1 d [of "n mod 10"] show ?thesis by (simp add: string_of_nat.simps [of n])
  qed
qed

text \<open>
  C5. For a structured condition mapping, both query builders (the one of
  \<open>getPastEvents\<close> and the one of \<open>subscribe\<close>) give the seed clause followed by one
  clause for each key of the mapping, in order, joined by \<open>' AND '\<close>. There are as many
  clauses after the seed as there are keys, so none for a key that is absent.
  \<open>fromBlock\<close> with the number \<open>a\<close> gives \<open>tx.height>\<close> and the decimal text of
  \<open>a - 1\<close>, and \<open>toBlock\<close> with the number \<open>b\<close> gives \<open>tx.height<\<close> and the decimal
  text of \<open>b + 1\<close>, for block heights that are safe integers, where the arithmetic of
  the language is exact. Any other key \<open>k\<close> with value \<open>v\<close> gives \<open>k=v\<close>: the string
  itself for a string, the decimal text for a safe integer, and in general what a
  template literal prints for \<open>v\<close>. A string in the place of the mapping is the query,
  unchanged.
\<close>

theorem C5_one_clause_per_key:
  "getPastEvents_query conv evName em (ObjectConditions kvs :: 'cb conditions) =
     join ((''EventNames CONTAINS '' @ apostrophe @
            (case em of None \<Rightarrow> ''.'' | Some e \<Rightarrow> if e = [] then ''.'' else ''|'' @ e @ ''.'') @
            evName @ ''|'' @ apostrophe) # map (spec_clause conv) kvs) '' AND ''
   \<and> subscribe_query conv n evName (ObjectConditions kvs :: 'cb conditions) =
     join ((''tm.event = '' @ replicate n (CHR '' '') @ apostrophe @ evName @ apostrophe)
           # map (spec_clause conv) kvs) '' AND ''
   \<and> length (map (spec_clause conv) kvs) = length kvs
   \<and> (isSafeInteger a \<longrightarrow>
        spec_clause conv (''fromBlock'', Num a) = ''tx.height>'' @ string_of_int (a - 1))
   \<and> (isSafeInteger b \<longrightarrow>
        spec_clause conv (''toBlock'', Num b) = ''tx.height<'' @ string_of_int (b + 1))
   \<and> (k \<noteq> ''fromBlock'' \<and> k \<noteq> ''toBlock'' \<longrightarrow>
        spec_clause conv (k, Str t) = k @ ''='' @ t)
   \<and> (k \<noteq> ''fromBlock'' \<and> k \<noteq> ''toBlock'' \<and> isSafeInteger m \<longrightarrow>
        spec_clause conv (k, Num m) = k @ ''='' @ string_of_int m)
   \<and> (k \<noteq> ''fromBlock'' \<and> k \<noteq> ''toBlock'' \<longrightarrow>
        spec_clause conv (k, v) = k @ ''='' @ template conv v)
   \<and> getPastEvents_query conv evName em (StringConditions s :: 'cb conditions) = s
   \<and> subscribe_query conv n evName (StringConditions s :: 'cb conditions) = s"
proof -
  have past: "getPastEvents_query conv evName em (ObjectConditions kvs) =
     join ((''EventNames CONTAINS '' @ apostrophe @
            (case em of None \<Rightarrow> ''.'' | Some e \<Rightarrow> if e = [] then ''.'' else ''|'' @ e @ ''.'') @
            evName @ ''|'' @ apostrophe) # map (spec_clause conv) kvs) '' AND ''"
    using getPastEvents_query_structured [of "ObjectConditions kvs" conv evName em] by simp
  have live: "subscribe_query conv n evName (ObjectConditions kvs) =
     join ((''tm.event = '' @ replicate n (CHR '' '') @ apostrophe @ evName @ apostrophe)
           # map (spec_clause conv) kvs) '' AND ''"
    using subscribe_query_structured [of "ObjectConditions kvs" conv n evName] by simp
  have lower: "isSafeInteger a \<longrightarrow>
      spec_clause conv (''fromBlock'', Num a) = ''tx.height>'' @ string_of_int (a - 1)"
    by (simp add: spec_clause_def)
  have upper: "isSafeInteger b \<longrightarrow>
      spec_clause conv (''toBlock'', Num b) = ''tx.height<'' @ string_of_int (b + 1)"
    by (simp add: spec_clause_def)
  have text_field: "k \<noteq> ''fromBlock'' \<and> k \<noteq> ''toBlock'' \<longrightarrow>
      spec_clause conv (k, Str t) = k @ ''='' @ t"
    by (simp add: spec_clause_def)
  have number_field: "k \<noteq> ''fromBlock'' \<and> k \<noteq> ''toBlock'' \<and> isSafeInteger m \<longrightarrow>
      spec_clause conv (k, Num m) = k @ ''='' @ string_of_int m"
    by (simp add: spec_clause_def)
  have field: "k \<noteq> ''fromBlock'' \<and> k \<noteq> ''toBlock'' \<longrightarrow>
      spec_clause conv (k, v) = k @ ''='' @ template conv v"
    by (simp add: spec_clause_def)
  have str1: "getPastEvents_query conv evName em (StringConditions s) = s"
    by (simp add: getPastEvents_query_def)
  have str2: "subscribe_query conv n evName (StringConditions s) = s"
    by (simp add: subscribe_query_def)
  from past live lower upper text_field number_field field str1 str2 show ?thesis by simp
qed

theorem C5_one_clause_per_key_witness:
  "isSafeInteger 0 \<and> isSafeInteger 100 \<and> isSafeInteger 42
   \<and> getPastEvents_query nan_conv ''Transferred'' (Some ''teat1'')
     (ObjectConditions [(''fromBlock'', Num 0), (''toBlock'', Num 100), (''owner'', Str ''xxx''),
                        (''amount'', Num 42)]
        :: nat conditions) =
     ''EventNames CONTAINS '' @ apostrophe @ ''|teat1.Transferred|'' @ apostrophe @
     '' AND tx.height>-1 AND tx.height<101 AND owner=xxx AND amount=42''
   \<and> spec_clause nan_conv (''fromBlock'', Num 0) = ''tx.height>-1''
   \<and> spec_clause nan_conv (''toBlock'', Num 100) = ''tx.height<101''
   \<and> spec_clause nan_conv (''owner'', Str ''xxx'') = ''owner=xxx''
   \<and> spec_clause nan_conv (''owner'', Num 42) = ''owner=42''"
  using C5_one_clause_per_key [where 'cb = nat and conv = nan_conv and evName = "''Transferred''"
      and em = "Some ''teat1''" and k = "''owner''" and v = "Str ''xxx''" and t = "''xxx''"
      and n = 0 and s = "''tx.height>0''" and a = 0 and b = 100 and m = 42
      and kvs = "[(''fromBlock'', Num 0), (''toBlock'', Num 100), (''owner'', Str ''xxx''),
                  (''amount'', Num 42)]"]
  by (simp add: isSafeInteger_def spec_clause_def string_of_int_def string_of_nat.simps
      digit_def apostrophe_def)

text \<open>
  C6, as the specification words it: the token in the seed clause of \<open>getPastEvents\<close>
  would be the emitter scope, a dot, the event name and a bar. The code puts no dot
  between the scope and the name: without an emitter the token is \<open>.Transferred|\<close>,
  and with the emitter \<open>teat1\<close> it is \<open>|teat1.Transferred|\<close>.
\<close>

theorem C6_counterexample:
  "getPastEvents_query nan_conv ''Transferred'' None (NoConditions :: nat conditions) =
     ''EventNames CONTAINS '' @ apostrophe @ ''.Transferred|'' @ apostrophe
   \<and> getPastEvents_query nan_conv ''Transferred'' None (NoConditions :: nat conditions) \<noteq>
     ''EventNames CONTAINS '' @ apostrophe @ ''.'' @ ''.'' @ ''Transferred'' @ ''|'' @ apostrophe
   \<and> getPastEvents_query nan_conv ''Transferred'' (Some ''teat1'') (NoConditions :: nat conditions) =
     ''EventNames CONTAINS '' @ apostrophe @ ''|teat1.Transferred|'' @ apostrophe
   \<and> getPastEvents_query nan_conv ''Transferred'' (Some ''teat1'') (NoConditions :: nat conditions) \<noteq>
     ''EventNames CONTAINS '' @ apostrophe @ ''|teat1.'' @ ''.'' @ ''Transferred'' @ ''|'' @ apostrophe"
  by (simp add: getPastEvents_query_def apostrophe_def)

text \<open>
  C6, amended. For every \<open>getPastEvents\<close> call with conditions that are not a string,
  the first clause of the query is \<open>EventNames CONTAINS '<scope><eventName>|'\<close>, the
  scope directly followed by the event name, where the scope is \<open>.\<close> when no emitter is
  given (left out or empty) and \<open>|<emitter>.\<close> when one is given; the clauses of the
  conditions follow, and the query is sent as a \<open>tx_search\<close> request.
\<close>

theorem C6_seed_clause:
  assumes "\<not> is_string conditions"
  shows "getPastEvents conv st evName em conditions options =
           (rpc_call st ''tx_search''
              ([''query'' \<mapsto> Str (getPastEvents_query conv evName em conditions)] ++ map_of options),
            Returns ())
         \<and> (em = None \<or> em = Some [] \<longrightarrow>
              getPastEvents_query conv evName em conditions =
                join ((''EventNames CONTAINS '' @ apostrophe @ ''.'' @ evName @ ''|'' @ apostrophe)
                      # map (spec_clause conv) (entries conditions)) '' AND '')
         \<and> (em = Some e \<and> e \<noteq> [] \<longrightarrow>
              getPastEvents_query conv evName em conditions =
                join ((''EventNames CONTAINS '' @ apostrophe @ ''|'' @ e @ ''.'' @ evName @ ''|'' @ apostrophe)
                      # map (spec_clause conv) (entries conditions)) '' AND '')"
proof -
  note q = getPastEvents_query_structured [OF assms, of conv evName em]
  have "getPastEvents_query conv evName em conditions \<noteq> []"
    by (simp add: q join_Cons)
  then have sent: "getPastEvents conv st evName em conditions options =
           (rpc_call st ''tx_search''
              ([''query'' \<mapsto> Str (getPastEvents_query conv evName em conditions)] ++ map_of options),
            Returns ())"
    by (simp add: getPastEvents_def searchTransactions_def)
  have none: "em = None \<or> em = Some [] \<longrightarrow>
              getPastEvents_query conv evName em conditions =
                join ((''EventNames CONTAINS '' @ apostrophe @ ''.'' @ evName @ ''|'' @ apostrophe)
                      # map (spec_clause conv) (entries conditions)) '' AND ''"
    using q by auto
  have some: "em = Some e \<and> e \<noteq> [] \<longrightarrow>
              getPastEvents_query conv evName em conditions =
                join ((''EventNames CONTAINS '' @ apostrophe @ ''|'' @ e @ ''.'' @ evName @ ''|'' @ apostrophe)
                      # map (spec_clause conv) (entries conditions)) '' AND ''"
    using q by auto
  from sent none some show ?thesis by blast
qed

theorem C6_seed_clause_witness:
  "\<not> is_string (ObjectConditions [(''toBlock'', Num 9)] :: nat conditions)
   \<and> sent_queries (fst (getPastEvents nan_conv http_client ''Transferred'' (Some ''teat1'')
         (ObjectConditions [(''toBlock'', Num 9)]) [])) =
       [Some (Str (''EventNames CONTAINS '' @ apostrophe @ ''|teat1.Transferred|'' @ apostrophe @
                   '' AND tx.height<10''))]"
  using C6_seed_clause [where conditions = "ObjectConditions [(''toBlock'', Num 9)] :: nat conditions"
      and conv = nan_conv and st = http_client and evName = "''Transferred''"
      and em = "Some ''teat1''" and options = "[]" and e = "''teat1''"]
  by (simp add: sent_queries_def rpc_call_def http_client_def IceTeaWeb3_def
      spec_clause_def isSafeInteger_def string_of_int_def string_of_nat.simps digit_def
      apostrophe_def)


section \<open>Subscribing\<close>

lemma subscribe_query_live:
  "\<not> is_string conditions \<Longrightarrow>
   subscribe_query conv n tag (fst (function_as_callback conditions callback)) =
     spec_live_query conv n tag conditions"
  using subscribe_query_structured
    [of "fst (function_as_callback conditions callback)" conv n tag]
  by (simp add: function_as_callback_is_string function_as_callback_entries spec_live_query_def)

lemma subscribe_non_system:
  assumes "isWebSocket st" and "evName \<notin> set systemEvent" and "\<not> is_string conditions"
  shows "subscribe conv st evName conditions callback =
     (rpc_call (st\<lparr> countSubscribeEvent := countSubscribeEvent st + 1 \<rparr>) ''subscribe''
        [''query'' \<mapsto> Str (spec_live_query conv (countSubscribeEvent st + 1) ''Tx'' conditions)],
      Returns \<lparr> sg_isSystemEvent = False,
                sg_nonSystemEventName = Some evName,
                sg_eventName = ''Tx'',
                sg_query = spec_live_query conv (countSubscribeEvent st + 1) ''Tx'' conditions,
                sg_callback = snd (function_as_callback conditions callback) \<rparr>)"
  using assms by (simp add: subscribe_websocket subscribe_query_live Let_def)

lemma countSubscribeEvent_rpc_call [simp]:
  "countSubscribeEvent (rpc_call st m ps) = countSubscribeEvent st"
  by (simp add: rpc_call_def)

lemma calls_rpc_call [simp]:
  "calls (rpc (rpc_call st m ps)) = calls (rpc st) @ [\<lparr> rpc_method = m, rpc_params = ps \<rparr>]"
  by (simp add: rpc_call_def)

lemma onMessage_rpc_call [simp]: "onMessage (rpc (rpc_call st m ps)) = onMessage (rpc st)"
  by (simp add: rpc_call_def)

lemma subscriptions_rpc_call [simp]: "subscriptions (rpc_call st m ps) = subscriptions st"
  by (simp add: rpc_call_def)

lemma isWebSocket_rpc_call [simp]: "isWebSocket (rpc_call st m ps) = isWebSocket st"
  by (simp add: rpc_call_def)

text \<open>No operation of the client decreases the counter or changes the kind of transport.\<close>

lemma countSubscribeEvent_subscribe:
  "countSubscribeEvent st \<le> countSubscribeEvent (fst (subscribe conv st evName conditions callback))"
  by (simp add: subscribe_def Let_def split: prod.splits)

lemma countSubscribeEvent_subscribe_settle:
  "countSubscribeEvent (fst (subscribe_settle st p s)) = countSubscribeEvent st"
  by (cases s) (simp_all add: subscribe_settle_def subscribe_then_def)

lemma countSubscribeEvent_unsubscribe:
  "countSubscribeEvent (fst (unsubscribe st i)) = countSubscribeEvent st"
  by (simp add: unsubscribe_def split: property_value.splits)

lemma countSubscribeEvent_unsubscribe_settle:
  "countSubscribeEvent (fst (unsubscribe_settle st i s)) = countSubscribeEvent st"
  by (cases s) (simp_all add: unsubscribe_settle_def unsubscribe_then_def)

lemma countSubscribeEvent_getPastEvents:
  "countSubscribeEvent (fst (getPastEvents conv st evName em conditions options)) =
     countSubscribeEvent st"
  by (simp add: getPastEvents_def searchTransactions_def)

lemma countSubscribeEvent_perform:
  "countSubscribeEvent st \<le> countSubscribeEvent (perform conv st x)"
  by (cases x)
     (simp_all add: countSubscribeEvent_subscribe countSubscribeEvent_subscribe_settle
        countSubscribeEvent_unsubscribe countSubscribeEvent_unsubscribe_settle
        countSubscribeEvent_getPastEvents)

lemma countSubscribeEvent_perform_all:
  "countSubscribeEvent st \<le> countSubscribeEvent (perform_all conv st ops)"
  unfolding perform_all_def
proof (induction ops arbitrary: st)
  case Nil
  show ?case by simp
next
  case (Cons x ops)
  have "countSubscribeEvent st \<le> countSubscribeEvent (perform conv st x)"
    by (rule countSubscribeEvent_perform)
  also have "\<dots> \<le> countSubscribeEvent (foldl (perform conv) (perform conv st x) ops)"
    by (rule Cons.IH)
  finally show ?case by simp
qed

lemma isWebSocket_perform: "isWebSocket (perform conv st x) = isWebSocket st"
proof (cases x)
  case (GetPastEvents evName em conditions options)
  then show ?thesis by (simp add: getPastEvents_def searchTransactions_def)
next
  case (Subscribe evName conditions callback)
  then show ?thesis by (simp add: subscribe_def Let_def split: prod.splits)
next
  case (SubscribeSettled p s)
  then show ?thesis by (cases s) (simp_all add: subscribe_settle_def subscribe_then_def)
next
  case (Unsubscribe i)
  then show ?thesis by (simp add: unsubscribe_def split: property_value.splits)
next
  case (UnsubscribeSettled i s)
  then show ?thesis by (cases s) (simp_all add: unsubscribe_settle_def unsubscribe_then_def)
qed

lemma isWebSocket_perform_all: "isWebSocket (perform_all conv st ops) = isWebSocket st"
  unfolding perform_all_def
  by (induction ops arbitrary: st) (simp_all add: isWebSocket_perform)

text \<open>
  C2, as the specification words it: every subscription to a non-system event name
  would carry the tag clause with counter-many whitespace characters, so that two
  subscriptions to the same name differ in that whitespace, and the counter would be
  one for the whole process. Neither holds. Two subscriptions to \<open>Transferred\<close> with
  the string \<open>tx.height>5\<close> as conditions both send exactly that string, although the
  counter has gone up to two. And the counter is a field of the client instance: the
  first subscription of a second client sends the same query, with one whitespace
  character, as the first subscription of the first client.
\<close>

theorem C2_counterexample:
  "sent_queries (subscribed (subscribed ws_client ''Transferred'' (StringConditions ''tx.height>5'') (Some 1) ''7'')
       ''Transferred'' (StringConditions ''tx.height>5'') (Some 1) ''8'') =
     [Some (Str ''tx.height>5''), Some (Str ''tx.height>5'')]
   \<and> countSubscribeEvent (subscribed (subscribed ws_client ''Transferred'' (StringConditions ''tx.height>5'') (Some 1) ''7'')
       ''Transferred'' (StringConditions ''tx.height>5'') (Some 1) ''8'') = 2
   \<and> sent_queries (subscribed ws_client ''Transferred'' NoConditions (Some 1) ''7'') =
     [Some (Str (''tm.event = '' @ '' '' @ apostrophe @ ''Tx'' @ apostrophe))]
   \<and> sent_queries (subscribed (IceTeaWeb3 ''wss://node2/websocket'') ''Transferred'' NoConditions (Some (2::nat)) ''7'') =
     [Some (Str (''tm.event = '' @ '' '' @ apostrophe @ ''Tx'' @ apostrophe))]"
  by (simp add: sent_queries_def subscribed_def subscribe_def subscribe_settle_def
      subscribe_then_def subscribe_query_def ws_client_def IceTeaWeb3_def systemEvent_def
      rpc_call_def space_loop.simps apostrophe_def Let_def)

text \<open>
  C2, amended. For every call to \<open>subscribe\<close> over a WebSocket transport with a
  non-system event name and conditions that are not a string, the counter of that client
  instance goes up by one and the query that is built and sent is the tag comparison
  with exactly counter-many whitespace characters before the quoted literal \<open>'Tx'\<close>,
  followed by the clauses of the conditions. Hence two such subscriptions with the same
  conditions on one client, whatever the client does in between, give queries that
  differ only in that whitespace, and the second has strictly more of it.
\<close>

theorem C2_whitespace_counter:
  assumes "isWebSocket st" and "evName \<notin> set systemEvent" and "\<not> is_string conditions"
    and "subscribe conv st evName conditions callback = (st1, r1)"
    and "subscribe conv (perform_all conv st1 ops) evName conditions callback2 = (st3, r2)"
  shows "countSubscribeEvent st1 = countSubscribeEvent st + 1
    \<and> (\<exists>p1. r1 = Returns p1
          \<and> sg_query p1 = spec_live_query conv (countSubscribeEvent st1) ''Tx'' conditions
          \<and> calls (rpc st1) = calls (rpc st) @
               [\<lparr> rpc_method = ''subscribe'', rpc_params = [''query'' \<mapsto> Str (sg_query p1)] \<rparr>])
    \<and> (\<exists>p2. r2 = Returns p2
          \<and> sg_query p2 = spec_live_query conv (countSubscribeEvent st3) ''Tx'' conditions
          \<and> calls (rpc st3) = calls (rpc (perform_all conv st1 ops)) @
               [\<lparr> rpc_method = ''subscribe'', rpc_params = [''query'' \<mapsto> Str (sg_query p2)] \<rparr>])
    \<and> countSubscribeEvent st1 < countSubscribeEvent st3"
proof -
  let ?st2 = "perform_all conv st1 ops"
  note first = subscribe_non_system [OF assms(1) assms(2) assms(3), of conv callback]
  from first assms(4) have st1: "countSubscribeEvent st1 = countSubscribeEvent st + 1"
    by auto
  from first assms(4) assms(1) have "isWebSocket st1"
    by auto
  then have ws2: "isWebSocket ?st2"
    by (simp add: isWebSocket_perform_all)
  note second = subscribe_non_system [OF ws2 assms(2) assms(3), of conv callback2]
  from second assms(5) have st3: "countSubscribeEvent st3 = countSubscribeEvent ?st2 + 1"
    by auto
  from first assms(4) st1 have one: "\<exists>p1. r1 = Returns p1
          \<and> sg_query p1 = spec_live_query conv (countSubscribeEvent st1) ''Tx'' conditions
          \<and> calls (rpc st1) = calls (rpc st) @
               [\<lparr> rpc_method = ''subscribe'', rpc_params = [''query'' \<mapsto> Str (sg_query p1)] \<rparr>]"
    by auto
  from second assms(5) st3 have two: "\<exists>p2. r2 = Returns p2
          \<and> sg_query p2 = spec_live_query conv (countSubscribeEvent st3) ''Tx'' conditions
          \<and> calls (rpc st3) = calls (rpc ?st2) @
               [\<lparr> rpc_method = ''subscribe'', rpc_params = [''query'' \<mapsto> Str (sg_query p2)] \<rparr>]"
    by auto
  have "countSubscribeEvent st1 \<le> countSubscribeEvent ?st2"
    by (rule countSubscribeEvent_perform_all)
  with st3 have "countSubscribeEvent st1 < countSubscribeEvent st3" by simp
  with st1 one two show ?thesis by blast
qed

theorem C2_whitespace_counter_witness:
  "isWebSocket ws_client \<and> ''Transferred'' \<notin> set systemEvent
   \<and> \<not> is_string (ObjectConditions [(''owner'', Str ''xxx'')] :: nat conditions)
   \<and> countSubscribeEvent (fst (subscribe nan_conv ws_client ''Transferred''
         (ObjectConditions [(''owner'', Str ''xxx'')]) (Some 1))) = 1
   \<and> countSubscribeEvent (fst (subscribe nan_conv ws_client ''Transferred''
         (ObjectConditions [(''owner'', Str ''xxx'')]) (Some 1)))
     < countSubscribeEvent (fst (subscribe nan_conv
         (perform_all nan_conv
            (fst (subscribe nan_conv ws_client ''Transferred''
               (ObjectConditions [(''owner'', Str ''xxx'')]) (Some 1)))
            [Unsubscribe ''7'', Subscribe ''NewBlock'' NoConditions (Some 3)])
         ''Transferred'' (ObjectConditions [(''owner'', Str ''xxx'')]) (Some 2)))"
proof -
  have ws: "isWebSocket ws_client"
    by (simp add: ws_client_def IceTeaWeb3_def)
  have ns: "''Transferred'' \<notin> set systemEvent"
    by (simp add: systemEvent_def)
  have c: "\<not> is_string (ObjectConditions [(''owner'', Str ''xxx'')] :: nat conditions)"
    by simp
  obtain st1 r1 where one: "subscribe nan_conv ws_client ''Transferred''
      (ObjectConditions [(''owner'', Str ''xxx'')]) (Some 1) = (st1, r1)"
    by (cases "subscribe nan_conv ws_client ''Transferred''
      (ObjectConditions [(''owner'', Str ''xxx'')]) (Some 1)") simp
  obtain st3 r2 where two: "subscribe nan_conv
      (perform_all nan_conv st1 [Unsubscribe ''7'', Subscribe ''NewBlock'' NoConditions (Some 3)])
      ''Transferred'' (ObjectConditions [(''owner'', Str ''xxx'')]) (Some 2) = (st3, r2)"
    by (cases "subscribe nan_conv
      (perform_all nan_conv st1 [Unsubscribe ''7'', Subscribe ''NewBlock'' NoConditions (Some 3)])
      ''Transferred'' (ObjectConditions [(''owner'', Str ''xxx'')]) (Some 2)") simp
  have zero: "countSubscribeEvent ws_client = 0"
    by (simp add: ws_client_def IceTeaWeb3_def)
  from C2_whitespace_counter [OF ws ns c one two] zero one two ws ns c
  show ?thesis by simp
qed

text \<open>
  C9. Over a WebSocket transport, when the conditions argument is a function and no
  callback is given, the function becomes the callback and the conditions become the
  empty mapping: the query that is sent is the tag clause alone, and the handler that
  is registered later calls that function.
\<close>

theorem C9_function_as_callback:
  assumes "isWebSocket st"
  shows "let sys = (evName \<in> set systemEvent);
             n = (if sys then countSubscribeEvent st else countSubscribeEvent st + 1);
             tag = (if sys then evName else ''Tx'');
             q = ''tm.event = '' @ replicate n (CHR '' '') @ apostrophe @ tag @ apostrophe;
             p = \<lparr> sg_isSystemEvent = sys,
                   sg_nonSystemEventName = (if sys then None else Some evName),
                   sg_eventName = tag, sg_query = q, sg_callback = Some f \<rparr>
         in function_as_callback (FunctionConditions f) None = (ObjectConditions [], Some f)
            \<and> subscribe conv st evName (FunctionConditions f) None =
                 (rpc_call (st\<lparr> countSubscribeEvent := n \<rparr>) ''subscribe'' [''query'' \<mapsto> Str q],
                  Returns p)
            \<and> q = subscribe_query conv n tag (ObjectConditions [])
            \<and> lis_callback (listener_of p result) = Some f"
  using assms
  by (simp add: subscribe_websocket Let_def listener_of_def subscribe_query_def
      space_loop_from_empty)

theorem C9_function_as_callback_witness:
  "isWebSocket ws_client
   \<and> sent_queries (fst (subscribe nan_conv ws_client ''NewBlock'' (FunctionConditions 4) None)) =
       [Some (Str (''tm.event = '' @ apostrophe @ ''NewBlock'' @ apostrophe))]
   \<and> onMessage (rpc (subscribed ws_client ''NewBlock'' (FunctionConditions 4) None ''9'')) =
       [\<lparr> lis_id = ''9'', lis_isSystemEvent = True, lis_nonSystemEventName = None,
          lis_callback = Some 4 \<rparr>]"
  using C9_function_as_callback [where st = ws_client and conv = nan_conv
      and evName = "''NewBlock''" and f = "4::nat" and result = "\<lparr> result_id = ''9'' \<rparr>"]
  by (auto simp add: sent_queries_def subscribed_def subscribe_settle_def subscribe_then_def
      listener_of_def ws_client_def IceTeaWeb3_def systemEvent_def rpc_call_def
      apostrophe_def Let_def)


section \<open>Routing inbound messages\<close>

lemma startsWith_iff: "startsWith s t \<longleftrightarrow> (\<exists>q. s = t @ q)"
  by (induction s t rule: startsWith.induct) auto

lemma indexOf_from_nonneg_iff:
  "0 \<le> indexOf_from k s t \<longleftrightarrow> (\<exists>p q. s = p @ t @ q)"
proof (induction s arbitrary: k)
  case Nil
  then show ?case by auto
next
  case (Cons c cs)
  show ?case
  proof (cases "startsWith (c # cs) t")
    case True
    then obtain q where "c # cs = t @ q" by (auto simp: startsWith_iff)
    then have "c # cs = [] @ t @ q" by simp
    then have "\<exists>p q. c # cs = p @ t @ q" by blast
    with True show ?thesis by simp
  next
    case False
    have "(\<exists>p q. c # cs = p @ t @ q) \<longleftrightarrow> (\<exists>p q. cs = p @ t @ q)"
    proof
      assume "\<exists>p q. c # cs = p @ t @ q"
      then obtain p q where pq: "c # cs = p @ t @ q" by blast
      show "\<exists>p q. cs = p @ t @ q"
      proof (cases p)
        case Nil
        with pq have "startsWith (c # cs) t" by (auto simp: startsWith_iff)
        with False show ?thesis by simp
      next
        case (Cons a p')
        with pq have "cs = p' @ t @ q" by simp
        then show ?thesis by blast
      qed
    next
      assume "\<exists>p q. cs = p @ t @ q"
      then obtain p q where "cs = p @ t @ q" by blast
      then have "c # cs = (c # p) @ t @ q" by simp
      then show "\<exists>p q. c # cs = p @ t @ q" by blast
    qed
    with False Cons.IH [of "Suc k"] show ?thesis by simp
  qed
qed

text \<open>\<open>s.indexOf(t) >= 0\<close> says that \<open>t\<close> occurs in \<open>s\<close>.\<close>

lemma indexOf_nonneg_iff: "0 \<le> indexOf s t \<longleftrightarrow> (\<exists>p q. s = p @ t @ q)"
  by (simp add: indexOf_def indexOf_from_nonneg_iff)

lemma forEach_on_event:
  assumes "subscriptions st (lis_id l) = Some s" and "lis_callback l = Some cb"
    and "lis_nonSystemEventName l = Some n" and "n \<noteq> []"
  shows "forEach (on_event st l jsonrpc mid) evs =
     \<lparr> invoked = map (\<lambda>ev. (cb, Stringified \<lparr> res_jsonrpc = jsonrpc, res_id = mid,
                          res_result = ev, res_result_query = query s \<rparr>))
                   (filter (\<lambda>ev. eventName ev = n) evs),
       raised = None \<rparr>"
proof (induction evs)
  case Nil
  show ?case by simp
next
  case (Cons ev evs)
  show ?case
  proof (cases "eventName ev = n")
    case True
    with assms have "on_event st l jsonrpc mid ev =
        \<lparr> invoked = [(cb, Stringified \<lparr> res_jsonrpc = jsonrpc, res_id = mid,
                          res_result = ev, res_result_query = query s \<rparr>)], raised = None \<rparr>"
      by (simp add: on_event_def call_callback_def subscriptions_at_def)
    with True Cons.IH show ?thesis by (simp add: Let_def)
  next
    case False
    with assms have "on_event st l jsonrpc mid ev = \<lparr> invoked = [], raised = None \<rparr>"
      by (auto simp add: on_event_def)
    with False Cons.IH show ?thesis by (simp add: Let_def)
  qed
qed

text \<open>
  What \<open>subscribe\<close> has captured when the subscription it makes is not one to a system
  event.
\<close>

lemma subscribing_non_system:
  assumes "subscribe conv st evName conditions callback = (st1, Returns p)"
    and "subscribeMethod_of p \<notin> set systemEvent"
  shows "\<not> sg_isSystemEvent p \<and> sg_nonSystemEventName p = Some evName \<and> evName \<noteq> []
         \<and> subscribeMethod_of p = evName"
proof -
  from assms(1) have ws: "isWebSocket st"
    by (auto simp add: subscribe_def split: if_splits)
  show ?thesis
  proof (cases "evName \<in> set systemEvent")
    case True
    with assms(1) ws have "subscribeMethod_of p = evName"
      by (auto simp add: subscribe_websocket Let_def subscribeMethod_of_def)
    with True assms(2) show ?thesis by simp
  next
    case False
    with assms(1) ws have p: "\<not> sg_isSystemEvent p" "sg_nonSystemEventName p = Some evName"
        "sg_eventName p = ''Tx''"
      by (auto simp add: subscribe_websocket Let_def)
    have "evName \<noteq> []"
    proof
      assume "evName = []"
      with p have "subscribeMethod_of p = ''Tx''" by (simp add: subscribeMethod_of_def)
      with assms(2) show False by (simp add: systemEvent_def)
    qed
    with p show ?thesis by (simp add: subscribeMethod_of_def)
  qed
qed

text \<open>
  C1, as the specification words it: whenever the id of the envelope contains the id of
  a registered non-system subscription, the callback is invoked once for each matching
  event. The handler first tests that the id of the subscription is truthy. A
  subscription to \<open>Transferred\<close> for which the server answered with the empty id is
  registered under that id, which every envelope id contains; the message \<open>push\<close>
  carries a \<open>Transferred\<close> event, and the callback is not invoked.
\<close>

theorem C1_counterexample:
  "subscriptions (subscribed ws_client ''Transferred'' NoConditions (Some 1) '''') '''' =
     Some \<lparr> subscription_id = '''', subscribeMethod = ''Transferred'',
            query = ''tm.event = '' @ '' '' @ apostrophe @ ''Tx'' @ apostrophe \<rparr>
   \<and> ''Transferred'' \<notin> set systemEvent
   \<and> onMessage (rpc (subscribed ws_client ''Transferred'' NoConditions (Some 1) '''')) =
       [\<lparr> lis_id = '''', lis_isSystemEvent = False,
          lis_nonSystemEventName = Some ''Transferred'', lis_callback = Some 1 \<rparr>]
   \<and> demo_parse ''push'' = Parsed ''2.0'' (IdString ''7#event'') ''tx''
   \<and> 0 \<le> indexOf ''7#event'' ''''
   \<and> map eventName (demo_decode ''tx'') = [''Transferred'', ''Other'']
   \<and> onMessage_handler demo_parse demo_decode
        (subscribed ws_client ''Transferred'' NoConditions (Some 1) '''')
        \<lparr> lis_id = '''', lis_isSystemEvent = False,
          lis_nonSystemEventName = Some ''Transferred'', lis_callback = Some 1 \<rparr>
        ''push'' =
       \<lparr> invoked = [], raised = None \<rparr>"
  by (simp add: subscribed_def subscribe_def subscribe_settle_def subscribe_then_def
      subscribe_query_def subscription_of_def subscribeMethod_of_def listener_of_def
      ws_client_def IceTeaWeb3_def systemEvent_def rpc_call_def space_loop.simps
      apostrophe_def Let_def demo_parse_def demo_decode_def transferred_def other_def
      indexOf_def onMessage_handler_def)

text \<open>
  C1, amended. Take a subscription made by \<open>subscribe\<close> with a callback, whose
  \<open>subscribeMethod\<close> is not a system event, whose id is not empty and which is still
  registered. For every inbound message whose envelope id contains that id as a
  substring, the handler decodes the payload and invokes the callback exactly once for
  each event whose \<open>eventName\<close> equals the \<open>subscribeMethod\<close>, in order, each time with
  the envelope's \<open>jsonrpc\<close> and \<open>id\<close> and with that event and the stored query as
  \<open>result\<close>; it raises no error. With no matching event there is no invocation.
\<close>

theorem C1_handler_dispatch:
  assumes "subscribe conv st0 evName conditions callback = (st1, Returns p)"
    and "subscribeMethod (subscription_of p result) \<notin> set systemEvent"
    and "sg_callback p = Some cb"
    and "result_id result \<noteq> []"
    and "subscriptions st (result_id result) = Some (subscription_of p result)"
    and "parse message = Parsed jsonrpc (IdString (pre @ result_id result @ post)) payload"
  shows "onMessage_handler parse decode st (listener_of p result) message =
     \<lparr> invoked =
         map (\<lambda>ev. (cb, Stringified \<lparr> res_jsonrpc = jsonrpc,
                                     res_id = pre @ result_id result @ post,
                                     res_result = ev,
                                     res_result_query = query (subscription_of p result) \<rparr>))
           (filter (\<lambda>ev. eventName ev = subscribeMethod (subscription_of p result))
              (decode payload)),
       raised = None \<rparr>"
proof -
  from assms(2) have "subscribeMethod_of p \<notin> set systemEvent"
    by (simp add: subscription_of_def)
  with assms(1) have p: "\<not> sg_isSystemEvent p" "sg_nonSystemEventName p = Some evName"
      "evName \<noteq> []" "subscribeMethod_of p = evName"
    using subscribing_non_system [of conv st0 evName conditions callback st1 p] by simp_all
  let ?l = "listener_of p result"
  have l: "lis_id ?l = result_id result" "\<not> lis_isSystemEvent ?l"
      "lis_nonSystemEventName ?l = Some evName" "lis_callback ?l = Some cb"
    using p assms(3) by (simp_all add: listener_of_def)
  have found: "0 \<le> indexOf (pre @ result_id result @ post) (result_id result)"
    unfolding indexOf_nonneg_iff by blast
  have reg: "subscriptions st (lis_id ?l) = Some (subscription_of p result)"
    using assms(5) l(1) by simp
  have same_name: "subscribeMethod (subscription_of p result) = evName"
    using p(4) by (simp add: subscription_of_def)
  have "onMessage_handler parse decode st ?l message =
      forEach (on_event st ?l jsonrpc (pre @ result_id result @ post)) (decode payload)"
    using assms(4) assms(6) l(1) l(2) found by (simp add: onMessage_handler_def)
  also have "\<dots> = \<lparr> invoked =
         map (\<lambda>ev. (cb, Stringified \<lparr> res_jsonrpc = jsonrpc,
                                     res_id = pre @ result_id result @ post,
                                     res_result = ev,
                                     res_result_query = query (subscription_of p result) \<rparr>))
           (filter (\<lambda>ev. eventName ev = evName) (decode payload)),
       raised = None \<rparr>"
    by (rule forEach_on_event [OF reg l(4) l(3) p(3)])
  finally show ?thesis by (simp add: same_name)
qed

theorem C1_handler_dispatch_witness:
  "''Transferred'' \<notin> set systemEvent
   \<and> subscriptions (subscribed ws_client ''Transferred'' NoConditions (Some 1) ''7'') ''7'' =
       Some \<lparr> subscription_id = ''7'', subscribeMethod = ''Transferred'',
              query = ''tm.event = '' @ '' '' @ apostrophe @ ''Tx'' @ apostrophe \<rparr>
   \<and> demo_parse ''push'' = Parsed ''2.0'' (IdString ([] @ ''7'' @ ''#event'')) ''tx''
   \<and> map eventName (demo_decode ''tx'') = [''Transferred'', ''Other'']
   \<and> onMessage_handler demo_parse demo_decode
        (subscribed ws_client ''Transferred'' NoConditions (Some 1) ''7'')
        \<lparr> lis_id = ''7'', lis_isSystemEvent = False,
          lis_nonSystemEventName = Some ''Transferred'', lis_callback = Some 1 \<rparr>
        ''push'' =
       \<lparr> invoked = [(1, Stringified \<lparr> res_jsonrpc = ''2.0'', res_id = ''7#event'',
                       res_result = transferred,
                       res_result_query = ''tm.event = '' @ '' '' @ apostrophe @ ''Tx'' @ apostrophe \<rparr>)],
         raised = None \<rparr>"
proof -
  let ?q = "''tm.event = '' @ '' '' @ apostrophe @ ''Tx'' @ apostrophe"
  let ?p = "\<lparr> sg_isSystemEvent = False, sg_nonSystemEventName = Some ''Transferred'',
             sg_eventName = ''Tx'', sg_query = ?q, sg_callback = Some (1::nat) \<rparr>"
  let ?st1 = "rpc_call (ws_client\<lparr> countSubscribeEvent := 1 \<rparr>) ''subscribe''
                [''query'' \<mapsto> Str ?q]"
  let ?r = "\<lparr> result_id = ''7'' \<rparr>"
  let ?st = "subscribed ws_client ''Transferred'' NoConditions (Some 1) ''7''"
  have sub: "subscribe nan_conv ws_client ''Transferred'' NoConditions (Some 1) = (?st1, Returns ?p)"
    by (simp add: subscribe_def subscribe_query_def ws_client_def IceTeaWeb3_def
        systemEvent_def space_loop.simps Let_def)
  have st: "?st = fst (subscribe_settle ?st1 ?p (Resolved ?r))"
    using sub by (simp add: subscribed_def)
  have nonsys: "subscribeMethod (subscription_of ?p ?r) \<notin> set systemEvent"
    by (simp add: subscription_of_def subscribeMethod_of_def systemEvent_def)
  have cb: "sg_callback ?p = Some 1" by simp
  have nonempty: "result_id ?r \<noteq> []" by simp
  have registered: "subscriptions ?st (result_id ?r) = Some (subscription_of ?p ?r)"
    using st by (simp add: subscribe_settle_def subscribe_then_def)
  have parsed: "demo_parse ''push'' =
      Parsed ''2.0'' (IdString ([] @ result_id ?r @ ''#event'')) ''tx''"
    by (simp add: demo_parse_def)
  from C1_handler_dispatch [where parse = demo_parse and message = "''push''"
      and pre = "[]" and post = "''#event''" and decode = demo_decode,
      OF sub nonsys cb nonempty registered parsed]
    registered parsed
  show ?thesis
    by (simp add: subscription_of_def subscribeMethod_of_def listener_of_def
        systemEvent_def demo_decode_def transferred_def other_def)
qed

text \<open>
  C3, as the specification words it: a message that cannot be parsed would be dropped
  without an error leaving the handler. The handler calls \<open>JSON.parse\<close> and reads
  \<open>jsonMsg.id.indexOf\<close> outside any \<open>try\<close>: the malformed message \<open>{oops\<close> makes it
  raise a SyntaxError, and the message \<open>no-id\<close>, which has no id, a TypeError.
\<close>

theorem C3_counterexample:
  "demo_parse ''{oops'' = Invalid
   \<and> raised (onMessage_handler demo_parse demo_decode
        (subscribed ws_client ''Transferred'' NoConditions (Some 1) ''7'')
        \<lparr> lis_id = ''7'', lis_isSystemEvent = False,
          lis_nonSystemEventName = Some ''Transferred'', lis_callback = Some 1 \<rparr>
        ''{oops'') = Some SyntaxError
   \<and> demo_parse ''no-id'' = Parsed ''2.0'' NoIndexOf ''tx''
   \<and> raised (onMessage_handler demo_parse demo_decode
        (subscribed ws_client ''Transferred'' NoConditions (Some 1) ''7'')
        \<lparr> lis_id = ''7'', lis_isSystemEvent = False,
          lis_nonSystemEventName = Some ''Transferred'', lis_callback = Some 1 \<rparr>
        ''no-id'') = Some TypeError"
  by (simp add: demo_parse_def onMessage_handler_def)

text \<open>
  C3, amended. For every inbound message that cannot be parsed into a well-formed
  envelope, the handler invokes no callback, and the error is raised out of the
  handler: a SyntaxError for malformed JSON, a TypeError for a missing id. Only the
  handler of a subscription whose own id is empty returns without an error on a
  missing id, since it does not look at the id of the message.
\<close>

theorem C3_unparsable_message:
  "(parse message = Invalid \<longrightarrow>
      onMessage_handler parse decode st l message =
        \<lparr> invoked = [], raised = Some SyntaxError \<rparr>)
   \<and> (parse message = Parsed jsonrpc NoIndexOf payload \<longrightarrow>
      onMessage_handler parse decode st l message =
        \<lparr> invoked = [], raised = (if lis_id l = [] then None else Some TypeError) \<rparr>)"
  by (simp add: onMessage_handler_def)

theorem C3_unparsable_message_witness:
  "demo_parse ''{oops'' = Invalid
   \<and> demo_parse ''no-id'' = Parsed ''2.0'' NoIndexOf ''tx''
   \<and> onMessage_handler demo_parse demo_decode ws_client
        \<lparr> lis_id = ''7'', lis_isSystemEvent = True,
          lis_nonSystemEventName = None, lis_callback = Some (5::nat) \<rparr> ''{oops'' =
       \<lparr> invoked = [], raised = Some SyntaxError \<rparr>
   \<and> onMessage_handler demo_parse demo_decode ws_client
        \<lparr> lis_id = ''7'', lis_isSystemEvent = True,
          lis_nonSystemEventName = None, lis_callback = Some (5::nat) \<rparr> ''no-id'' =
       \<lparr> invoked = [], raised = Some TypeError \<rparr>"
proof -
  have bad: "demo_parse ''{oops'' = Invalid"
    by (simp add: demo_parse_def)
  have noid: "demo_parse ''no-id'' = Parsed ''2.0'' NoIndexOf ''tx''"
    by (simp add: demo_parse_def)
  from C3_unparsable_message [where parse = demo_parse and message = "''{oops''"
      and decode = demo_decode and st = ws_client
      and l = "\<lparr> lis_id = ''7'', lis_isSystemEvent = True,
          lis_nonSystemEventName = None, lis_callback = Some (5::nat) \<rparr>"] bad
  have one: "onMessage_handler demo_parse demo_decode ws_client
        \<lparr> lis_id = ''7'', lis_isSystemEvent = True,
          lis_nonSystemEventName = None, lis_callback = Some (5::nat) \<rparr> ''{oops'' =
       \<lparr> invoked = [], raised = Some SyntaxError \<rparr>"
    by simp
  from C3_unparsable_message [where parse = demo_parse and message = "''no-id''"
      and decode = demo_decode and st = ws_client and jsonrpc = "''2.0''" and payload = "''tx''"
      and l = "\<lparr> lis_id = ''7'', lis_isSystemEvent = True,
          lis_nonSystemEventName = None, lis_callback = Some (5::nat) \<rparr>"] noid
  have two: "onMessage_handler demo_parse demo_decode ws_client
        \<lparr> lis_id = ''7'', lis_isSystemEvent = True,
          lis_nonSystemEventName = None, lis_callback = Some (5::nat) \<rparr> ''no-id'' =
       \<lparr> invoked = [], raised = Some TypeError \<rparr>"
    by simp
  from bad noid one two show ?thesis by simp
qed


section \<open>The registry\<close>

text \<open>
  C4, as the specification words it: an id that the server returns a second time would
  make the registration fail with an error, and the entry would stay as it was. There
  is no such test: after a subscription to \<open>Transferred\<close> is registered under \<open>7\<close>, a
  subscription to \<open>Minted\<close> that the server also answers with \<open>7\<close> resolves with that
  result, and the entry under \<open>7\<close> is now the one for \<open>Minted\<close>.
\<close>

theorem C4_counterexample:
  "subscriptions (subscribed ws_client ''Transferred'' NoConditions (Some 1) ''7'') ''7'' =
     Some \<lparr> subscription_id = ''7'', subscribeMethod = ''Transferred'',
            query = ''tm.event = '' @ '' '' @ apostrophe @ ''Tx'' @ apostrophe \<rparr>
   \<and> subscribed_promise (subscribed ws_client ''Transferred'' NoConditions (Some 1) ''7'')
        ''Minted'' NoConditions (Some 2) ''7'' = Returns (Resolved \<lparr> result_id = ''7'' \<rparr>)
   \<and> subscriptions (subscribed (subscribed ws_client ''Transferred'' NoConditions (Some 1) ''7'')
        ''Minted'' NoConditions (Some 2) ''7'') ''7'' =
     Some \<lparr> subscription_id = ''7'', subscribeMethod = ''Minted'',
            query = ''tm.event = '' @ ''  '' @ apostrophe @ ''Tx'' @ apostrophe \<rparr>"
  by (simp add: subscribed_def subscribed_promise_def subscribe_def subscribe_settle_def
      subscribe_then_def subscribe_query_def subscription_of_def subscribeMethod_of_def
      ws_client_def IceTeaWeb3_def systemEvent_def rpc_call_def space_loop.simps
      apostrophe_def Let_def)

text \<open>
  C4, amended. For every \<open>subscribe\<close> call whose server-returned id is already present
  in the registry, the registration succeeds: the promise resolves with the server's
  result, no error is surfaced, the entry under that id is replaced by the entry of
  the new call, every other entry is kept, and one more handler is registered.
\<close>

theorem C4_duplicate_id_overwrites:
  assumes "subscriptions st (result_id result) = Some old"
  shows "snd (subscribe_settle st p (Resolved result)) = Resolved result
    \<and> subscriptions (fst (subscribe_settle st p (Resolved result))) =
        (subscriptions st)(result_id result \<mapsto> subscription_of p result)
    \<and> onMessage (rpc (fst (subscribe_settle st p (Resolved result)))) =
        onMessage (rpc st) @ [listener_of p result]"
  by (simp add: subscribe_settle_def subscribe_then_def)

theorem C4_duplicate_id_overwrites_witness:
  "subscriptions (subscribed ws_client ''Transferred'' NoConditions (Some 1) ''7'') ''7'' =
     Some \<lparr> subscription_id = ''7'', subscribeMethod = ''Transferred'',
            query = ''tm.event = '' @ '' '' @ apostrophe @ ''Tx'' @ apostrophe \<rparr>
   \<and> snd (subscribe_settle (subscribed ws_client ''Transferred'' NoConditions (Some 1) ''7'')
        \<lparr> sg_isSystemEvent = False, sg_nonSystemEventName = Some ''Minted'',
          sg_eventName = ''Tx'', sg_query = ''q2'', sg_callback = Some 2 \<rparr>
        (Resolved \<lparr> result_id = ''7'' \<rparr>)) = Resolved \<lparr> result_id = ''7'' \<rparr>
   \<and> subscriptions (fst (subscribe_settle (subscribed ws_client ''Transferred'' NoConditions (Some 1) ''7'')
        \<lparr> sg_isSystemEvent = False, sg_nonSystemEventName = Some ''Minted'',
          sg_eventName = ''Tx'', sg_query = ''q2'', sg_callback = Some 2 \<rparr>
        (Resolved \<lparr> result_id = ''7'' \<rparr>))) ''7'' =
     Some \<lparr> subscription_id = ''7'', subscribeMethod = ''Minted'', query = ''q2'' \<rparr>"
proof -
  have old: "subscriptions (subscribed ws_client ''Transferred'' NoConditions (Some 1) ''7'')
      (result_id \<lparr> result_id = ''7'' \<rparr>) =
     Some \<lparr> subscription_id = ''7'', subscribeMethod = ''Transferred'',
            query = ''tm.event = '' @ '' '' @ apostrophe @ ''Tx'' @ apostrophe \<rparr>"
    by (simp add: subscribed_def subscribe_def subscribe_settle_def
      subscribe_then_def subscribe_query_def subscription_of_def subscribeMethod_of_def
      ws_client_def IceTeaWeb3_def systemEvent_def rpc_call_def space_loop.simps
      apostrophe_def Let_def)
  from C4_duplicate_id_overwrites [OF old, where p = "\<lparr> sg_isSystemEvent = False,
          sg_nonSystemEventName = Some ''Minted'',
          sg_eventName = ''Tx'', sg_query = ''q2'', sg_callback = Some 2 \<rparr>"] old
  show ?thesis
    by (simp add: subscription_of_def subscribeMethod_of_def)
qed

text \<open>
  C7. An unsubscribe call on a registered id leaves the entry in the registry: over a
  WebSocket transport it sends the unsubscribe request with the stored query and
  returns a promise that waits for the server. In whatever later state the request is
  settled, the entry is removed when the server has answered, and it is still there
  when the server has refused or has not answered.
\<close>

theorem C7_removed_after_acknowledgement:
  assumes "subscriptions st i = Some s" and "subscriptions st' i = Some s'"
  shows "subscriptions (fst (unsubscribe st i)) i = Some s
    \<and> (isWebSocket st \<longrightarrow>
          unsubscribe st i = (rpc_call st ''unsubscribe'' [''query'' \<mapsto> Str (query s)],
                              Returns (AwaitingServer i)))
    \<and> subscriptions (fst (unsubscribe_settle st' i (Rejected e :: 'r settlement))) i = Some s'
    \<and> subscriptions (fst (unsubscribe_settle st' i (Unsettled :: 'r settlement))) i = Some s'
    \<and> subscriptions (fst (unsubscribe_settle st' i (Resolved (res :: 'r)))) i = None"
  using assms
  by (simp add: unsubscribe_def subscriptions_at_def unsubscribe_settle_def unsubscribe_then_def)

theorem C7_removed_after_acknowledgement_witness:
  "subscriptions (subscribed ws_client ''Transferred'' NoConditions (Some 1) ''7'') ''7'' =
     Some \<lparr> subscription_id = ''7'', subscribeMethod = ''Transferred'',
            query = ''tm.event = '' @ '' '' @ apostrophe @ ''Tx'' @ apostrophe \<rparr>
   \<and> isWebSocket (subscribed ws_client ''Transferred'' NoConditions (Some 1) ''7'')
   \<and> snd (unsubscribe (subscribed ws_client ''Transferred'' NoConditions (Some 1) ''7'') ''7'') =
       Returns (AwaitingServer ''7'')
   \<and> subscriptions (fst (unsubscribe_settle
         (fst (unsubscribe (subscribed ws_client ''Transferred'' NoConditions (Some 1) ''7'') ''7''))
         ''7'' (Rejected (Error ''timeout'') :: unit settlement))) ''7'' =
     Some \<lparr> subscription_id = ''7'', subscribeMethod = ''Transferred'',
            query = ''tm.event = '' @ '' '' @ apostrophe @ ''Tx'' @ apostrophe \<rparr>
   \<and> subscriptions (fst (unsubscribe_settle
         (fst (unsubscribe (subscribed ws_client ''Transferred'' NoConditions (Some 1) ''7'') ''7''))
         ''7'' (Resolved ()))) ''7'' = None"
proof -
  let ?s = "\<lparr> subscription_id = ''7'', subscribeMethod = ''Transferred'',
            query = ''tm.event = '' @ '' '' @ apostrophe @ ''Tx'' @ apostrophe \<rparr>"
  let ?st = "subscribed ws_client ''Transferred'' NoConditions (Some 1) ''7''"
  have reg: "subscriptions ?st ''7'' = Some ?s"
    by (simp add: subscribed_def subscribe_def subscribe_settle_def
      subscribe_then_def subscribe_query_def subscription_of_def subscribeMethod_of_def
      ws_client_def IceTeaWeb3_def systemEvent_def rpc_call_def space_loop.simps
      apostrophe_def Let_def)
  have ws: "isWebSocket ?st"
    by (simp add: subscribed_def subscribe_def subscribe_settle_def
      subscribe_then_def ws_client_def IceTeaWeb3_def rpc_call_def Let_def)
  have reg': "subscriptions (fst (unsubscribe ?st ''7'')) ''7'' = Some ?s"
    using reg ws by (simp add: unsubscribe_def subscriptions_at_def)
  note inst = C7_removed_after_acknowledgement [OF reg reg', where e = "Error ''timeout''"
      and res = "()"]
  from inst ws have "unsubscribe ?st ''7'' =
      (rpc_call ?st ''unsubscribe'' [''query'' \<mapsto> Str (query ?s)], Returns (AwaitingServer ''7''))"
    by blast
  then have awaiting: "snd (unsubscribe ?st ''7'') = Returns (AwaitingServer ''7'')"
    by simp
  from inst have rejected: "subscriptions (fst (unsubscribe_settle (fst (unsubscribe ?st ''7''))
         ''7'' (Rejected (Error ''timeout'') :: unit settlement))) ''7'' = Some ?s"
    by blast
  from inst have resolved: "subscriptions (fst (unsubscribe_settle (fst (unsubscribe ?st ''7''))
         ''7'' (Resolved ()))) ''7'' = None"
    by blast
  from reg ws awaiting rejected resolved show ?thesis by blast
qed

text \<open>
  Unsubscribing an id under which nothing is found, not even an inherited value: over
  a WebSocket the promise is rejected, over any other transport the call throws, and
  in both cases the client is left as it was.
\<close>

lemma unsubscribe_nothing_found:
  assumes "subscriptions_at st i = NoProperty"
  shows "unsubscribe st i =
     (st, if isWebSocket st
          then Returns (RejectedWith
                 (Error (''Error: Subscription with ID '' @ i @ '' does not exist.'')))
          else Throws (Error ''unsubscribe for WebSocket only''))"
  using assms by (simp add: unsubscribe_def)

text \<open>
  C8. Unsubscribing an id with no registered subscription should give a promise
  rejected with the error that says so, send no request and leave the registry as it
  is. The code means to test that, with
  \<open>typeof this.subscriptions[subscriptionId] !== 'undefined'\<close>, but the registry is a
  plain object, and for a name that every object inherits the test passes: on a new
  client over a WebSocket, with nothing registered, \<open>unsubscribe('toString')\<close> sends
  an unsubscribe request whose query is \<open>undefined\<close> and returns a promise that waits
  for the server.
\<close>

theorem C8_inherited_name_sends_request:
  "isWebSocket ws_client
   \<and> subscriptions ws_client ''toString'' = None
   \<and> calls (rpc ws_client) = []
   \<and> unsubscribe ws_client ''toString'' =
       (rpc_call ws_client ''unsubscribe'' [''query'' \<mapsto> Undefined],
        Returns (AwaitingServer ''toString''))
   \<and> sent_queries (fst (unsubscribe ws_client ''toString'')) = [Some Undefined]"
  by (simp add: unsubscribe_def subscriptions_at_def Object_prototype_def sent_queries_def
      rpc_call_def ws_client_def IceTeaWeb3_def)

text \<open>
  C10. When the server has answered a subscribe request, exactly one more handler is
  registered for \<open>onMessage\<close>, after those that were there. Unsubscribing, in the call
  and when the request is settled, leaves the registered handlers, the counter and the
  kind of transport as they were, and changes nothing in the registry but the entry of
  the given id, which it removes when the server has answered: the handler of the
  subscription stays registered. All that the Transport receives is the unsubscribe
  request, sent over a WebSocket when something is found under the id.
\<close>

theorem C10_listener_stays:
  "onMessage (rpc (fst (subscribe_settle st p (Resolved result)))) =
     onMessage (rpc st) @ [listener_of p result]
   \<and> onMessage (rpc (fst (unsubscribe st i))) = onMessage (rpc st)
   \<and> onMessage (rpc (fst (unsubscribe_settle st i s))) = onMessage (rpc st)
   \<and> subscriptions (fst (unsubscribe st i)) = subscriptions st
   \<and> subscriptions (fst (unsubscribe_settle st i s)) =
       (case s of Resolved res \<Rightarrow> (subscriptions st)(i := None) | _ \<Rightarrow> subscriptions st)
   \<and> countSubscribeEvent (fst (unsubscribe st i)) = countSubscribeEvent st
   \<and> countSubscribeEvent (fst (unsubscribe_settle st i s)) = countSubscribeEvent st
   \<and> isWebSocket (fst (unsubscribe st i)) = isWebSocket st
   \<and> isWebSocket (fst (unsubscribe_settle st i s)) = isWebSocket st
   \<and> calls (rpc (fst (unsubscribe st i))) =
       calls (rpc st) @
       (if isWebSocket st
        then (case subscriptions_at st i of
                Entry entry \<Rightarrow>
                  [\<lparr> rpc_method = ''unsubscribe'',
                     rpc_params = [''query'' \<mapsto> Str (query entry)] \<rparr>]
              | Inherited \<Rightarrow>
                  [\<lparr> rpc_method = ''unsubscribe'', rpc_params = [''query'' \<mapsto> Undefined] \<rparr>]
              | NoProperty \<Rightarrow> [])
        else [])
   \<and> calls (rpc (fst (unsubscribe_settle st i s))) = calls (rpc st)"
proof -
  have sub: "onMessage (rpc (fst (subscribe_settle st p (Resolved result)))) =
     onMessage (rpc st) @ [listener_of p result]"
    by (simp add: subscribe_settle_def subscribe_then_def)
  have call: "onMessage (rpc (fst (unsubscribe st i))) = onMessage (rpc st)"
      "subscriptions (fst (unsubscribe st i)) = subscriptions st"
      "isWebSocket (fst (unsubscribe st i)) = isWebSocket st"
      "calls (rpc (fst (unsubscribe st i))) =
       calls (rpc st) @
       (if isWebSocket st
        then (case subscriptions_at st i of
                Entry entry \<Rightarrow>
                  [\<lparr> rpc_method = ''unsubscribe'',
                     rpc_params = [''query'' \<mapsto> Str (query entry)] \<rparr>]
              | Inherited \<Rightarrow>
                  [\<lparr> rpc_method = ''unsubscribe'', rpc_params = [''query'' \<mapsto> Undefined] \<rparr>]
              | NoProperty \<Rightarrow> [])
        else [])"
    by (simp_all add: unsubscribe_def split: property_value.splits)
  have settle: "onMessage (rpc (fst (unsubscribe_settle st i s))) = onMessage (rpc st)"
      "subscriptions (fst (unsubscribe_settle st i s)) =
       (case s of Resolved res \<Rightarrow> (subscriptions st)(i := None) | _ \<Rightarrow> subscriptions st)"
      "isWebSocket (fst (unsubscribe_settle st i s)) = isWebSocket st"
      "calls (rpc (fst (unsubscribe_settle st i s))) = calls (rpc st)"
    by (cases s; simp add: unsubscribe_settle_def unsubscribe_then_def)+
  from sub call settle show ?thesis
    by (simp add: countSubscribeEvent_unsubscribe countSubscribeEvent_unsubscribe_settle)
qed

end
